theory Spec2Isabelle
  imports Complex_Main
begin

section \<open>Data model\<close>

text \<open>
  The service keeps one resource, the ad (\<^verbatim>\<open>domain.Ad\<close>).  Identifiers are Go
  \<^verbatim>\<open>int64\<close> values; no arithmetic is done on them, so they are integers here.
  The price is a \<^verbatim>\<open>float64\<close> that the code only carries around, idealised as a
  real number.  Timestamps are seconds since the epoch.
\<close>

record Ad =
  ID :: int
  Title :: string
  Description :: string
  Price :: real
  CreatedAt :: int
  UpdatedAt :: int
  Active :: bool

text \<open>
  Errors are values.  \<open>ErrNoRows\<close> is \<^verbatim>\<open>sql.ErrNoRows\<close>; \<open>ErrInvalidID\<close> and
  \<open>ErrAdNotFound\<close> are the two sentinels of the service package; \<open>RedisNil\<close> is the
  cache's answer for an absent key and \<open>CacheFault\<close> any other error of a cache call;
  \<open>StoreFault\<close> is any driver or transport error of a database call;
  \<open>Errorf msg e\<close> is \<^verbatim>\<open>fmt.Errorf("msg: %w", e)\<close>; \<open>ErrSyntax\<close> and \<open>ErrRange\<close>
  are the two errors of \<^verbatim>\<open>strconv.Atoi\<close>; \<open>DivideByZeroPanic\<close> is the run-time panic
  of an integer division by zero.
\<close>

datatype error =
    ErrNoRows
  | ErrInvalidID
  | ErrAdNotFound
  | RedisNil
  | CacheFault
  | StoreFault
  | Errorf string error
  | ErrSyntax
  | ErrRange
  | DivideByZeroPanic

text \<open>\<^verbatim>\<open>errors.Is\<close>: the error itself or one it wraps is the target.\<close>

fun errors_Is :: "error \<Rightarrow> error \<Rightarrow> bool" where
  "errors_Is (Errorf m e) t = (if Errorf m e = t then True else errors_Is e t)"
| "errors_Is e t = (e = t)"

text \<open>
  Every call that leaves the process is recorded: the calls on the cache
  (\<^verbatim>\<open>cache.Get\<close>, \<^verbatim>\<open>cache.Set\<close> with its expiration in seconds, \<^verbatim>\<open>cache.Delete\<close>)
  and the statements sent to the store (the page query with its text and its two bound
  arguments, the row query by id, the update, the delete, the count).
\<close>

datatype event =
    CacheGet string
  | CacheSet string string int
  | CacheDelete string
  | StoreQuery string int int
  | StoreQueryRow int
  | StoreExecUpdate Ad
  | StoreExecDelete int
  | StoreCount

text \<open>
  The world outside the process: the table \<^verbatim>\<open>ads\<close>, the wall clock, the cache's key
  space (a value with the instant it expires at), the calls made so far (oldest first),
  and, for each of the two collaborators, the outcomes of its coming calls: the n-th
  entry says whether the n-th call from now fails; a call past the end of the list
  succeeds.  A failed call returns an error and changes nothing.
\<close>

record world =
  rows :: "Ad list"
  clock :: int
  redis :: "string \<rightharpoonup> string \<times> int"
  cache_faults :: "bool list"
  store_faults :: "bool list"
  trace :: "event list"

fun pop_fault :: "bool list \<Rightarrow> bool \<times> bool list" where
  "pop_fault [] = (False, [])"
| "pop_fault (f # fs) = (f, fs)"

text \<open>
  What the three outcomes of the page query are: the query itself fails, scanning a row
  fails, the row iterator reports an error, or the rows arrive.
\<close>

datatype rows_outcome = QueryFails | ScanFails | RowsErrFails | Yields "Ad list"

text \<open>
  The libraries the repository calls and whose behaviour it does not decide are
  parameters: \<^verbatim>\<open>encoding/json\<close> on one ad and on a list of ads (\<open>None\<close> is an error),
  and the SQL engine's reading of the page query: its text, the two bound arguments and
  the table give the outcome.
\<close>

record env =
  json_Marshal_Ad :: "Ad \<Rightarrow> string option"
  json_Unmarshal_Ad :: "string \<Rightarrow> Ad option"
  json_Marshal_Ads :: "Ad list \<Rightarrow> string option"
  json_Unmarshal_Ads :: "string \<Rightarrow> Ad list option"
  mysql_page :: "string \<Rightarrow> int \<Rightarrow> int \<Rightarrow> Ad list \<Rightarrow> rows_outcome"

section \<open>The cache (RedisCache)\<close>

definition cache_Get :: "world \<Rightarrow> string \<Rightarrow> (error + string) \<times> world" where
  "cache_Get w k =
     (let (f, fs) = pop_fault (cache_faults w);
          w1 = w\<lparr>cache_faults := fs, trace := trace w @ [CacheGet k]\<rparr>
      in if f then (Inl CacheFault, w1)
         else (case redis w k of
                 None \<Rightarrow> (Inl RedisNil, w1)
               | Some (v, expires) \<Rightarrow>
                   if clock w < expires then (Inr v, w1) else (Inl RedisNil, w1)))"

definition cache_Set :: "world \<Rightarrow> string \<Rightarrow> string \<Rightarrow> int \<Rightarrow> (error + unit) \<times> world" where
  "cache_Set w k v ttl =
     (let (f, fs) = pop_fault (cache_faults w);
          w1 = w\<lparr>cache_faults := fs, trace := trace w @ [CacheSet k v ttl]\<rparr>
      in if f then (Inl CacheFault, w1)
         else (Inr (), w1\<lparr>redis := (redis w)(k \<mapsto> (v, clock w + ttl))\<rparr>))"

definition cache_Delete :: "world \<Rightarrow> string \<Rightarrow> (error + unit) \<times> world" where
  "cache_Delete w k =
     (let (f, fs) = pop_fault (cache_faults w);
          w1 = w\<lparr>cache_faults := fs, trace := trace w @ [CacheDelete k]\<rparr>
      in if f then (Inl CacheFault, w1)
         else (Inr (), w1\<lparr>redis := (redis w)(k := None)\<rparr>))"

section \<open>The store (database/sql on the table ads)\<close>

text \<open>
  The statements of the repository on the table, one function each.  The update sets
  the four columns of the request and \<^verbatim>\<open>updated_at\<close> (to the store's clock) in every row
  with the id; the delete removes every row with the id; both report the number of rows
  with that id as the rows affected.  \<^verbatim>\<open>RowsAffected\<close> is a call of its own on the
  driver's result and takes the next outcome of the store like the statements do, but
  is not a statement and leaves no entry in the trace.  The query of one row by id
  yields the first row with the id or \<^verbatim>\<open>sql.ErrNoRows\<close>.
\<close>

definition db_QueryContext_page ::
  "env \<Rightarrow> world \<Rightarrow> string \<Rightarrow> int \<Rightarrow> int \<Rightarrow> rows_outcome \<times> world" where
  "db_QueryContext_page E w q limit offset =
     (let (f, fs) = pop_fault (store_faults w);
          w1 = w\<lparr>store_faults := fs, trace := trace w @ [StoreQuery q limit offset]\<rparr>
      in (if f then QueryFails else mysql_page E q limit offset (rows w), w1))"

definition db_QueryRowContext_id :: "world \<Rightarrow> int \<Rightarrow> (error + Ad) \<times> world" where
  "db_QueryRowContext_id w i =
     (let (f, fs) = pop_fault (store_faults w);
          w1 = w\<lparr>store_faults := fs, trace := trace w @ [StoreQueryRow i]\<rparr>
      in if f then (Inl StoreFault, w1)
         else (case find (\<lambda>r. ID r = i) (rows w) of
                 None \<Rightarrow> (Inl ErrNoRows, w1)
               | Some r \<Rightarrow> (Inr r, w1)))"

definition set_columns :: "Ad \<Rightarrow> int \<Rightarrow> Ad \<Rightarrow> Ad" where
  "set_columns ad now r =
     r\<lparr>Title := Title ad, Description := Description ad, Price := Price ad,
       Active := Active ad, UpdatedAt := now\<rparr>"

definition db_ExecContext_update :: "world \<Rightarrow> Ad \<Rightarrow> (error + int) \<times> world" where
  "db_ExecContext_update w ad =
     (let (f, fs) = pop_fault (store_faults w);
          w1 = w\<lparr>store_faults := fs, trace := trace w @ [StoreExecUpdate ad]\<rparr>
      in if f then (Inl StoreFault, w1)
         else (Inr (int (length (filter (\<lambda>r. ID r = ID ad) (rows w)))),
               w1\<lparr>rows := map (\<lambda>r. if ID r = ID ad then set_columns ad (clock w) r else r)
                               (rows w)\<rparr>))"

definition db_ExecContext_delete :: "world \<Rightarrow> int \<Rightarrow> (error + int) \<times> world" where
  "db_ExecContext_delete w i =
     (let (f, fs) = pop_fault (store_faults w);
          w1 = w\<lparr>store_faults := fs, trace := trace w @ [StoreExecDelete i]\<rparr>
      in if f then (Inl StoreFault, w1)
         else (Inr (int (length (filter (\<lambda>r. ID r = i) (rows w)))),
               w1\<lparr>rows := filter (\<lambda>r. ID r \<noteq> i) (rows w)\<rparr>))"

definition result_RowsAffected :: "world \<Rightarrow> int \<Rightarrow> (error + int) \<times> world" where
  "result_RowsAffected w n =
     (let (f, fs) = pop_fault (store_faults w)
      in (if f then Inl StoreFault else Inr n, w\<lparr>store_faults := fs\<rparr>))"

definition db_QueryRowContext_count :: "world \<Rightarrow> (error + int) \<times> world" where
  "db_QueryRowContext_count w =
     (let (f, fs) = pop_fault (store_faults w);
          w1 = w\<lparr>store_faults := fs, trace := trace w @ [StoreCount]\<rparr>
      in (if f then Inl StoreFault else Inr (int (length (rows w))), w1))"

section \<open>The repository (mysqlAdRepository)\<close>

text \<open>
  Each method takes the world and returns its result with the world it leaves.  The
  spans and metrics of the source record what happens and decide nothing; they are left
  out, and so is the request context.
\<close>

text \<open>\<^verbatim>\<open>%d\<close> of \<^verbatim>\<open>fmt.Sprintf\<close>: an integer in decimal, with a minus sign when negative.\<close>

definition digit_char :: "nat \<Rightarrow> char" where
  "digit_char d = ''0123456789'' ! d"

function string_of_nat :: "nat \<Rightarrow> string" where
  "string_of_nat n =
     (if n < 10 then [digit_char n] else string_of_nat (n div 10) @ [digit_char (n mod 10)])"
  by pat_completeness auto
termination
  by (relation "measure (\<lambda>n. n)") auto

declare string_of_nat.simps [simp del]

definition string_of_int :: "int \<Rightarrow> string" where
  "string_of_int i = (if i < 0 then ''-'' @ string_of_nat (nat (- i)) else string_of_nat (nat i))"

definition ad_key :: "int \<Rightarrow> string" where
  "ad_key i = ''ad:'' @ string_of_int i"

definition default_page_key :: string where
  "default_page_key = ''ads:default_page''"

text \<open>\<^verbatim>\<open>10*time.Minute\<close>, in seconds.\<close>

definition ten_minutes :: int where
  "ten_minutes = 600"

definition isDefaultPagination :: "int \<Rightarrow> int \<Rightarrow> string \<Rightarrow> string \<Rightarrow> bool" where
  "isDefaultPagination limit offset sortBy order =
     (limit = 10 \<and> offset = 0 \<and> sortBy = ''created_at'' \<and> order = ''ASC'')"

text \<open>
  The text of the page query: the raw string of the source, each line break followed by
  two tabs, with \<^verbatim>\<open>sortBy\<close> and \<^verbatim>\<open>order\<close> put in by \<^verbatim>\<open>%s\<close> as they are.
\<close>

definition line_break :: string where
  "line_break = [CHR 0x0A, CHR 0x09, CHR 0x09]"

definition page_query :: "string \<Rightarrow> string \<Rightarrow> string" where
  "page_query sortBy order =
     line_break @ ''SELECT id, title, description, price, created_at, updated_at, active''
     @ line_break @ ''FROM ads''
     @ line_break @ ''ORDER BY '' @ sortBy @ '' '' @ order
     @ line_break @ ''LIMIT ? OFFSET ?''"

definition repository_GetAllAds ::
  "env \<Rightarrow> world \<Rightarrow> int \<Rightarrow> int \<Rightarrow> string \<Rightarrow> string \<Rightarrow> (error + Ad list) \<times> world" where
  "repository_GetAllAds E w limit offset sortBy order =
     (let (hit, w1) =
            (if isDefaultPagination limit offset sortBy order
             then (let (cachedAds, w') = cache_Get w default_page_key
                   in (case cachedAds of
                         Inl err \<Rightarrow> None
                       | Inr s \<Rightarrow> json_Unmarshal_Ads E s, w'))
             else (None, w))
      in case hit of
           Some ads \<Rightarrow> (Inr ads, w1)
         | None \<Rightarrow>
             (let (out, w2) = db_QueryContext_page E w1 (page_query sortBy order) limit offset
              in case out of
                   QueryFails \<Rightarrow> (Inl (Errorf ''failed to retrieve ads'' StoreFault), w2)
                 | ScanFails \<Rightarrow> (Inl (Errorf ''failed to scan ad'' StoreFault), w2)
                 | RowsErrFails \<Rightarrow> (Inl (Errorf ''rows error'' StoreFault), w2)
                 | Yields ads \<Rightarrow>
                     (if isDefaultPagination limit offset sortBy order
                      then (case json_Marshal_Ads E ads of
                              None \<Rightarrow> (Inr ads, w2)
                            | Some adsJSON \<Rightarrow>
                                (Inr ads, snd (cache_Set w2 default_page_key adsJSON ten_minutes)))
                      else (Inr ads, w2))))"

definition repository_GetAdByID :: "env \<Rightarrow> world \<Rightarrow> int \<Rightarrow> (error + Ad) \<times> world" where
  "repository_GetAdByID E w i =
     (let cacheKey = ad_key i;
          (cachedAd, w1) = cache_Get w cacheKey
      in case (case cachedAd of Inl err \<Rightarrow> None | Inr s \<Rightarrow> json_Unmarshal_Ad E s) of
           Some ad \<Rightarrow> (Inr ad, w1)
         | None \<Rightarrow>
             (let (res, w2) = db_QueryRowContext_id w1 i
              in case res of
                   Inl err \<Rightarrow> (Inl err, w2)
                 | Inr ad \<Rightarrow>
                     (case json_Marshal_Ad E ad of
                        None \<Rightarrow> (Inr ad, w2)
                      | Some adJSON \<Rightarrow> (Inr ad, snd (cache_Set w2 cacheKey adJSON ten_minutes)))))"

definition repository_UpdateAd :: "env \<Rightarrow> world \<Rightarrow> Ad \<Rightarrow> (error + Ad) \<times> world" where
  "repository_UpdateAd E w ad =
     (let (result, w1) = db_ExecContext_update w ad
      in case result of
           Inl err \<Rightarrow> (Inl (Errorf ''failed to update ad'' err), w1)
         | Inr res \<Rightarrow>
             (let (affected, w2) = result_RowsAffected w1 res
              in case affected of
                   Inl err \<Rightarrow> (Inl (Errorf ''failed to retrieve rows affected'' err), w2)
                 | Inr rowsAffected \<Rightarrow>
                     if rowsAffected = 0 then (Inl ErrNoRows, w2)
                     else
                       (let cacheKey = ad_key (ID ad);
                            w3 = snd (cache_Delete w2 cacheKey);
                            (reread, w4) = db_QueryRowContext_id w3 (ID ad)
                        in case reread of
                             Inl err \<Rightarrow> (Inl (Errorf ''failed to fetch updated ad'' err), w4)
                           | Inr updatedAd \<Rightarrow>
                               (case json_Marshal_Ad E updatedAd of
                                  None \<Rightarrow> (Inr updatedAd, w4)
                                | Some updatedAdJSON \<Rightarrow>
                                    (Inr updatedAd,
                                     snd (cache_Set w4 cacheKey updatedAdJSON ten_minutes))))))"

definition repository_DeleteAd :: "world \<Rightarrow> int \<Rightarrow> (error + unit) \<times> world" where
  "repository_DeleteAd w i =
     (let (result, w1) = db_ExecContext_delete w i
      in case result of
           Inl err \<Rightarrow> (Inl (Errorf ''failed to delete ad'' err), w1)
         | Inr res \<Rightarrow>
             (let (affected, w2) = result_RowsAffected w1 res
              in case affected of
                   Inl err \<Rightarrow> (Inl (Errorf ''failed to retrieve rows affected'' err), w2)
                 | Inr rowsAffected \<Rightarrow>
                     if rowsAffected = 0 then (Inl ErrNoRows, w2)
                     else (Inr (), snd (cache_Delete w2 (ad_key i)))))"

definition repository_CountAds :: "world \<Rightarrow> (error + int) \<times> world" where
  "repository_CountAds w =
     (let (res, w1) = db_QueryRowContext_count w
      in case res of
           Inl err \<Rightarrow> (Inl (Errorf ''failed to count ads'' err), w1)
         | Inr count \<Rightarrow> (Inr count, w1))"

section \<open>The service (adService)\<close>

text \<open>
  Go's \<^verbatim>\<open>int\<close> is 64 bits wide on the build target (amd64): sums, differences and
  products wrap around, and the quotient truncates towards zero.  A division by zero
  panics; the functions below are only applied to a divisor checked to be non-zero.
\<close>

definition wrap64 :: "int \<Rightarrow> int" where
  "wrap64 x = (x + 2 ^ 63) mod 2 ^ 64 - 2 ^ 63"

definition go_quo :: "int \<Rightarrow> int \<Rightarrow> int" where
  "go_quo a b = wrap64 (sgn a * sgn b * (\<bar>a\<bar> div \<bar>b\<bar>))"

record PaginationResult =
  Ads :: "Ad list"
  CurrentPage :: int
  NextPage :: int
  PrevPage :: int
  TotalPages :: int

text \<open>
  The two fields tagged \<^verbatim>\<open>omitempty\<close> as the JSON encoding shows them: absent when the
  field is zero.
\<close>

definition next_page_json :: "PaginationResult \<Rightarrow> int option" where
  "next_page_json p = (if NextPage p = 0 then None else Some (NextPage p))"

definition prev_page_json :: "PaginationResult \<Rightarrow> int option" where
  "prev_page_json p = (if PrevPage p = 0 then None else Some (PrevPage p))"

definition pagination :: "Ad list \<Rightarrow> int \<Rightarrow> int \<Rightarrow> int \<Rightarrow> PaginationResult" where
  "pagination ads totalCount limit offset =
     (let totalPages = go_quo (wrap64 (wrap64 (totalCount + limit) - 1)) limit;
          currentPage = wrap64 (go_quo offset limit + 1);
          nextPage = (if currentPage < totalPages then wrap64 (currentPage + 1) else 0);
          prevPage = (if currentPage > 1 then wrap64 (currentPage - 1) else 0)
      in \<lparr>Ads = ads, CurrentPage = currentPage, NextPage = nextPage,
          PrevPage = prevPage, TotalPages = totalPages\<rparr>)"

definition service_GetAllAds ::
  "env \<Rightarrow> world \<Rightarrow> int \<Rightarrow> int \<Rightarrow> string \<Rightarrow> string \<Rightarrow> (error + PaginationResult) \<times> world" where
  "service_GetAllAds E w limit offset sortBy order =
     (let (res, w1) = repository_GetAllAds E w limit offset sortBy order
      in case res of
           Inl err \<Rightarrow> (Inl err, w1)
         | Inr ads \<Rightarrow>
             (let (cnt, w2) = repository_CountAds w1
              in case cnt of
                   Inl err \<Rightarrow> (Inl err, w2)
                 | Inr totalCount \<Rightarrow>
                     if limit = 0 then (Inl DivideByZeroPanic, w2)
                     else (Inr (pagination ads totalCount limit offset), w2)))"

definition service_GetAdByID :: "env \<Rightarrow> world \<Rightarrow> int \<Rightarrow> (error + Ad) \<times> world" where
  "service_GetAdByID E w i =
     (if i \<le> 0 then (Inl ErrInvalidID, w)
      else (let (res, w1) = repository_GetAdByID E w i
            in case res of
                 Inl err \<Rightarrow> (if errors_Is err ErrNoRows then Inl ErrAdNotFound else Inl err, w1)
               | Inr ad \<Rightarrow> (Inr ad, w1)))"

definition service_UpdateAd :: "env \<Rightarrow> world \<Rightarrow> Ad \<Rightarrow> (error + Ad) \<times> world" where
  "service_UpdateAd E w ad =
     (if ID ad \<le> 0 then (Inl ErrInvalidID, w)
      else (let (res, w1) = repository_UpdateAd E w ad
            in case res of
                 Inl err \<Rightarrow> (if errors_Is err ErrNoRows then Inl ErrAdNotFound else Inl err, w1)
               | Inr updatedAd \<Rightarrow> (Inr updatedAd, w1)))"

definition service_DeleteAd :: "world \<Rightarrow> int \<Rightarrow> (error + unit) \<times> world" where
  "service_DeleteAd w i =
     (if i \<le> 0 then (Inl ErrInvalidID, w)
      else (let (res, w1) = repository_DeleteAd w i
            in case res of
                 Inl err \<Rightarrow> (if errors_Is err ErrNoRows then Inl ErrAdNotFound else Inl err, w1)
               | Inr u \<Rightarrow> (Inr (), w1)))"

section \<open>The handler of the list request (AdHandler.GetAllAds)\<close>

text \<open>
  \<^verbatim>\<open>strconv.Atoi\<close>: an optional sign and at least one decimal digit, the value within
  64 bits; anything else is an error (callers here do not tell its two errors apart
  beyond their being errors).
\<close>

definition digit_value :: "char \<Rightarrow> int" where
  "digit_value c = int (of_char c) - 48"

definition strconv_Atoi :: "string \<Rightarrow> error + int" where
  "strconv_Atoi s =
     (let neg = (case s of [] \<Rightarrow> False | c # cs \<Rightarrow> c = CHR ''-'');
          ds = (case s of [] \<Rightarrow> [] | c # cs \<Rightarrow> if c = CHR ''-'' \<or> c = CHR ''+'' then cs else s)
      in if ds = [] then Inl ErrSyntax
         else if list_ex (\<lambda>c. c \<notin> set ''0123456789'') ds then Inl ErrSyntax
         else (let n = foldl (\<lambda>a c. a * 10 + digit_value c) 0 ds;
                   v = (if neg then - n else n)
               in if v < - (2 ^ 63) then Inl ErrRange
                  else if 2 ^ 63 - 1 < v then Inl ErrRange
                  else Inr v))"

text \<open>\<^verbatim>\<open>url.Values.Get\<close>: the parameter's value, or the empty string when it is absent.\<close>

definition query_Get :: "(string \<rightharpoonup> string) \<Rightarrow> string \<Rightarrow> string" where
  "query_Get q k = (case q k of None \<Rightarrow> [] | Some v \<Rightarrow> v)"

datatype response =
    RespondWithJSON int PaginationResult
  | RespondWithErrorJSON int string
  | Panics

definition handler_limit :: "(string \<rightharpoonup> string) \<Rightarrow> int" where
  "handler_limit q =
     (case strconv_Atoi (query_Get q ''limit'') of
        Inl err \<Rightarrow> 10
      | Inr limit \<Rightarrow> if limit \<le> 0 then 10 else limit)"

definition handler_page :: "(string \<rightharpoonup> string) \<Rightarrow> int" where
  "handler_page q =
     (case strconv_Atoi (query_Get q ''page'') of
        Inl err \<Rightarrow> 1
      | Inr page \<Rightarrow> if page \<le> 0 then 1 else page)"

definition handler_GetAllAds :: "env \<Rightarrow> world \<Rightarrow> (string \<rightharpoonup> string) \<Rightarrow> response \<times> world" where
  "handler_GetAllAds E w q =
     (let limit = handler_limit q;
          page = handler_page q;
          offset = wrap64 (wrap64 (page - 1) * limit);
          sortBy = (if query_Get q ''sortBy'' = [] then ''created_at'' else query_Get q ''sortBy'');
          order = (if query_Get q ''order'' = [] then ''ASC'' else query_Get q ''order'');
          (result, w1) = service_GetAllAds E w limit offset sortBy order
      in case result of
           Inl err \<Rightarrow>
             (if err = DivideByZeroPanic then Panics
              else RespondWithErrorJSON 500 ''could not retrieve ads'', w1)
         | Inr r \<Rightarrow> (RespondWithJSON 200 r, w1))"

section \<open>Notions the statements use\<close>

text \<open>Whether the n-th coming call of a collaborator fails.\<close>

definition fails_at :: "bool list \<Rightarrow> nat \<Rightarrow> bool" where
  "fails_at fs n = (case drop n fs of [] \<Rightarrow> False | f # r \<Rightarrow> f)"

text \<open>The calls made between two worlds, oldest first.\<close>

definition new_events :: "world \<Rightarrow> world \<Rightarrow> event list" where
  "new_events w w' = drop (length (trace w)) (trace w')"

text \<open>The key a cache call is on; \<open>None\<close> for a call on the store.\<close>

fun cache_key_of :: "event \<Rightarrow> string option" where
  "cache_key_of (CacheGet k) = Some k"
| "cache_key_of (CacheSet k v t) = Some k"
| "cache_key_of (CacheDelete k) = Some k"
| "cache_key_of e = None"

text \<open>
  What the store reports for the statement of \<^verbatim>\<open>UpdateAd\<close> and of \<^verbatim>\<open>DeleteAd\<close>: the
  error of \<^verbatim>\<open>ExecContext\<close> or of \<^verbatim>\<open>RowsAffected\<close>, or the number of rows affected.
\<close>

definition update_report :: "world \<Rightarrow> Ad \<Rightarrow> error + int" where
  "update_report w ad =
     (let (result, w1) = db_ExecContext_update w ad
      in case result of Inl err \<Rightarrow> Inl err | Inr res \<Rightarrow> fst (result_RowsAffected w1 res))"

definition delete_report :: "world \<Rightarrow> int \<Rightarrow> error + int" where
  "delete_report w i =
     (let (result, w1) = db_ExecContext_delete w i
      in case result of Inl err \<Rightarrow> Inl err | Inr res \<Rightarrow> fst (result_RowsAffected w1 res))"

text \<open>
  The allow-lists the specification asks for before the sort column and the direction
  are put into the query text.  The repository has no such lists; they are written here
  from the specification's words, to state what the code does with a value outside them.
\<close>

definition allowed_sort_columns :: "string list" where
  "allowed_sort_columns = [''id'', ''title'', ''price'', ''created_at'', ''updated_at'']"

definition allowed_sort_directions :: "string list" where
  "allowed_sort_directions = [''ASC'', ''DESC'']"

section \<open>Example data\<close>

definition bike :: Ad where
  "bike = \<lparr>ID = 7, Title = ''Bike'', Description = ''Used'', Price = 50,
            CreatedAt = 1000, UpdatedAt = 1000, Active = True\<rparr>"

definition bike_request :: Ad where
  "bike_request = \<lparr>ID = 7, Title = ''Bike'', Description = ''Used'', Price = 40,
                    CreatedAt = 0, UpdatedAt = 0, Active = True\<rparr>"

definition bike_updated :: Ad where
  "bike_updated = \<lparr>ID = 7, Title = ''Bike'', Description = ''Used'', Price = 40,
                    CreatedAt = 1000, UpdatedAt = 2000, Active = True\<rparr>"

definition lamp :: Ad where
  "lamp = \<lparr>ID = 8, Title = ''Lamp'', Description = ''New'', Price = 15,
            CreatedAt = 1500, UpdatedAt = 1500, Active = True\<rparr>"

text \<open>
  A codec that knows the two states of the example ad, and an engine that answers the
  page query with the rows past the offset, up to the limit, whatever the ordering asked.
\<close>

definition demo_env :: env where
  "demo_env =
     \<lparr>json_Marshal_Ad = (\<lambda>a. if a = bike then Some ''bike50''
                             else if a = bike_updated then Some ''bike40'' else None),
      json_Unmarshal_Ad = (\<lambda>s. if s = ''bike50'' then Some bike
                               else if s = ''bike40'' then Some bike_updated else None),
      json_Marshal_Ads = (\<lambda>ads. if ads = [bike] then Some ''[bike50]'' else None),
      json_Unmarshal_Ads = (\<lambda>s. if s = ''[bike50]'' then Some [bike] else None),
      mysql_page = (\<lambda>q limit offset rs. Yields (take (nat limit) (drop (nat offset) rs)))\<rparr>"

text \<open>
  One row, read and cached at an earlier time; the clock now stands at 2000 and the
  cached copy is good until 2500.
\<close>

definition demo_world :: world where
  "demo_world =
     \<lparr>rows = [bike], clock = 2000, redis = [''ad:7'' \<mapsto> (''bike50'', 2500)],
      cache_faults = [], store_faults = [], trace = []\<rparr>"

section \<open>Facts about the calls\<close>

text \<open>Each call, written with the outcome its collaborator has in store for it.\<close>

lemma pop_fault_eq: "pop_fault fs = (fails_at fs 0, tl fs)"
  by (cases fs) (simp_all add: fails_at_def)

lemma fails_at_tl: "fails_at (tl fs) n = fails_at fs (Suc n)"
  by (simp add: fails_at_def drop_Suc)

lemma cache_Get_eq:
  "cache_Get w k =
     (if fails_at (cache_faults w) 0 then Inl CacheFault
      else (case redis w k of None \<Rightarrow> Inl RedisNil
            | Some (v, expires) \<Rightarrow> if clock w < expires then Inr v else Inl RedisNil),
      w\<lparr>cache_faults := tl (cache_faults w), trace := trace w @ [CacheGet k]\<rparr>)"
  by (simp add: cache_Get_def pop_fault_eq split: option.splits)

lemma cache_Set_eq:
  "cache_Set w k v ttl =
     (if fails_at (cache_faults w) 0 then Inl CacheFault else Inr (),
      w\<lparr>cache_faults := tl (cache_faults w), trace := trace w @ [CacheSet k v ttl],
        redis := (if fails_at (cache_faults w) 0 then redis w
                  else (redis w)(k \<mapsto> (v, clock w + ttl)))\<rparr>)"
  by (simp add: cache_Set_def pop_fault_eq)

lemma cache_Delete_eq:
  "cache_Delete w k =
     (if fails_at (cache_faults w) 0 then Inl CacheFault else Inr (),
      w\<lparr>cache_faults := tl (cache_faults w), trace := trace w @ [CacheDelete k],
        redis := (if fails_at (cache_faults w) 0 then redis w else (redis w)(k := None))\<rparr>)"
  by (simp add: cache_Delete_def pop_fault_eq)

lemma db_QueryContext_page_eq:
  "db_QueryContext_page E w q limit offset =
     (if fails_at (store_faults w) 0 then QueryFails else mysql_page E q limit offset (rows w),
      w\<lparr>store_faults := tl (store_faults w), trace := trace w @ [StoreQuery q limit offset]\<rparr>)"
  by (simp add: db_QueryContext_page_def pop_fault_eq)

lemma db_QueryRowContext_id_eq:
  "db_QueryRowContext_id w i =
     (if fails_at (store_faults w) 0 then Inl StoreFault
      else (case find (\<lambda>r. ID r = i) (rows w) of None \<Rightarrow> Inl ErrNoRows | Some r \<Rightarrow> Inr r),
      w\<lparr>store_faults := tl (store_faults w), trace := trace w @ [StoreQueryRow i]\<rparr>)"
  by (simp add: db_QueryRowContext_id_def pop_fault_eq split: option.splits)

lemma db_ExecContext_update_eq:
  "db_ExecContext_update w ad =
     (if fails_at (store_faults w) 0 then Inl StoreFault
      else Inr (int (length (filter (\<lambda>r. ID r = ID ad) (rows w)))),
      w\<lparr>store_faults := tl (store_faults w), trace := trace w @ [StoreExecUpdate ad],
        rows := (if fails_at (store_faults w) 0 then rows w
                 else map (\<lambda>r. if ID r = ID ad then set_columns ad (clock w) r else r)
                        (rows w))\<rparr>)"
  by (simp add: db_ExecContext_update_def pop_fault_eq)

lemma db_ExecContext_delete_eq:
  "db_ExecContext_delete w i =
     (if fails_at (store_faults w) 0 then Inl StoreFault
      else Inr (int (length (filter (\<lambda>r. ID r = i) (rows w)))),
      w\<lparr>store_faults := tl (store_faults w), trace := trace w @ [StoreExecDelete i],
        rows := (if fails_at (store_faults w) 0 then rows w
                 else filter (\<lambda>r. ID r \<noteq> i) (rows w))\<rparr>)"
  by (simp add: db_ExecContext_delete_def pop_fault_eq)

lemma result_RowsAffected_eq:
  "result_RowsAffected w n =
     (if fails_at (store_faults w) 0 then Inl StoreFault else Inr n,
      w\<lparr>store_faults := tl (store_faults w)\<rparr>)"
  by (simp add: result_RowsAffected_def pop_fault_eq)

lemma db_QueryRowContext_count_eq:
  "db_QueryRowContext_count w =
     (if fails_at (store_faults w) 0 then Inl StoreFault else Inr (int (length (rows w))),
      w\<lparr>store_faults := tl (store_faults w), trace := trace w @ [StoreCount]\<rparr>)"
  by (simp add: db_QueryRowContext_count_def pop_fault_eq)

lemmas calls = cache_Get_eq cache_Set_eq cache_Delete_eq db_QueryContext_page_eq
  db_QueryRowContext_id_eq db_ExecContext_update_eq db_ExecContext_delete_eq
  result_RowsAffected_eq db_QueryRowContext_count_eq

text \<open>The definitions a run on the example data unfolds.\<close>

lemmas run =
  repository_UpdateAd_def repository_GetAdByID_def repository_DeleteAd_def
  repository_GetAllAds_def repository_CountAds_def
  cache_Get_def cache_Set_def cache_Delete_def db_QueryContext_page_def
  db_QueryRowContext_id_def db_ExecContext_update_def db_ExecContext_delete_def
  result_RowsAffected_def db_QueryRowContext_count_def set_columns_def
  ad_key_def string_of_int_def string_of_nat.simps digit_char_def ten_minutes_def
  default_page_key_def isDefaultPagination_def new_events_def fails_at_def
  demo_env_def demo_world_def bike_def bike_request_def bike_updated_def lamp_def Let_def

lemmas run_service =
  service_GetAllAds_def handler_GetAllAds_def handler_limit_def handler_page_def
  strconv_Atoi_def digit_value_def query_Get_def pagination_def wrap64_def go_quo_def

text \<open>The keys and the parsing of numbers, on examples.\<close>

lemma ad_key_examples: "ad_key 7 = ''ad:7'' \<and> ad_key 1234 = ''ad:1234'' \<and> ad_key (- 12) = ''ad:-12''"
  by (simp add: ad_key_def string_of_int_def string_of_nat.simps digit_char_def)

lemma strconv_Atoi_examples:
  "strconv_Atoi ''0'' = Inr 0 \<and> strconv_Atoi ''-12'' = Inr (- 12)
   \<and> strconv_Atoi ''+5'' = Inr 5
   \<and> strconv_Atoi ''9223372036854775807'' = Inr 9223372036854775807
   \<and> strconv_Atoi ''9223372036854775808'' = Inl ErrRange
   \<and> strconv_Atoi ''1x'' = Inl ErrSyntax \<and> strconv_Atoi [] = Inl ErrSyntax
   \<and> strconv_Atoi ''-'' = Inl ErrSyntax"
  by (simp add: strconv_Atoi_def digit_value_def)

text \<open>The table after an update and after a delete, read by id.\<close>

lemma find_updated:
  "find (\<lambda>r. ID r = i) (map (\<lambda>r. if ID r = i then set_columns ad now r else r) rs)
   = map_option (set_columns ad now) (find (\<lambda>r. ID r = i) rs)"
  by (induction rs) (simp_all add: set_columns_def)

lemma find_deleted: "find (\<lambda>r. ID r = i) (filter (\<lambda>r. ID r \<noteq> i) rs) = None"
  by (induction rs) simp_all

lemma filter_empty_find: "(filter (\<lambda>r. ID r = i) rs = []) = (find (\<lambda>r. ID r = i) rs = None)"
  by (induction rs) simp_all

lemma update_report_eq:
  "update_report w ad =
     (if fails_at (store_faults w) 0 \<or> fails_at (store_faults w) 1 then Inl StoreFault
      else Inr (int (length (filter (\<lambda>r. ID r = ID ad) (rows w)))))"
  by (simp add: update_report_def calls fails_at_tl)

lemma delete_report_eq:
  "delete_report w i =
     (if fails_at (store_faults w) 0 \<or> fails_at (store_faults w) 1 then Inl StoreFault
      else Inr (int (length (filter (\<lambda>r. ID r = i) (rows w)))))"
  by (simp add: delete_report_def calls fails_at_tl)

section \<open>What each repository operation returns and leaves behind\<close>

text \<open>
  A successful \<^verbatim>\<open>UpdateAd\<close>: none of its three store calls failed, the row existed, the
  value returned is the row as the store now holds it, and the cache key holds what the
  two cache calls left: the new value when the set went through, nothing when only the
  delete did, and whatever it held before when both failed.
\<close>

lemma UpdateAd_success:
  assumes "repository_UpdateAd E w ad = (Inr updatedAd, w')"
  shows "\<not> fails_at (store_faults w) 0 \<and> \<not> fails_at (store_faults w) 1
       \<and> \<not> fails_at (store_faults w) 2
       \<and> find (\<lambda>r. ID r = ID ad) (rows w) \<noteq> None
       \<and> find (\<lambda>r. ID r = ID ad) (rows w') = Some updatedAd
       \<and> clock w' = clock w
       \<and> store_faults w' = tl (tl (tl (store_faults w)))
       \<and> trace w' = trace w
             @ [StoreExecUpdate ad, CacheDelete (ad_key (ID ad)), StoreQueryRow (ID ad)]
             @ (case json_Marshal_Ad E updatedAd of None \<Rightarrow> []
                | Some s \<Rightarrow> [CacheSet (ad_key (ID ad)) s ten_minutes])
       \<and> redis w' =
           (case json_Marshal_Ad E updatedAd of
              None \<Rightarrow> (if fails_at (cache_faults w) 0 then redis w
                        else (redis w)(ad_key (ID ad) := None))
            | Some s \<Rightarrow>
               (if fails_at (cache_faults w) 1
                then (if fails_at (cache_faults w) 0 then redis w
                      else (redis w)(ad_key (ID ad) := None))
                else (redis w)(ad_key (ID ad) \<mapsto> (s, clock w + ten_minutes))))"
  using assms
  by (auto simp: repository_UpdateAd_def calls fails_at_tl Let_def eval_nat_numeral
        find_updated filter_empty_find
      split: if_splits sum.splits option.splits)

lemma DeleteAd_success:
  assumes "repository_DeleteAd w i = (Inr (), w')"
  shows "\<not> fails_at (store_faults w) 0 \<and> \<not> fails_at (store_faults w) 1
       \<and> rows w' = filter (\<lambda>r. ID r \<noteq> i) (rows w)
       \<and> clock w' = clock w
       \<and> trace w' = trace w @ [StoreExecDelete i, CacheDelete (ad_key i)]
       \<and> redis w' = (if fails_at (cache_faults w) 0 then redis w
                      else (redis w)(ad_key i := None))"
  using assms
  by (auto simp: repository_DeleteAd_def calls fails_at_tl Let_def split: if_splits sum.splits)

text \<open>
  \<^verbatim>\<open>GetAdByID\<close> answers from the cache when the get succeeds on a live entry that parses,
  and from the store otherwise.
\<close>

lemma GetAdByID_result:
  "fst (repository_GetAdByID E w i) =
     (case (if fails_at (cache_faults w) 0 then None
            else case redis w (ad_key i) of
                   None \<Rightarrow> None
                 | Some (v, expires) \<Rightarrow>
                     if clock w < expires then json_Unmarshal_Ad E v else None) of
        Some ad \<Rightarrow> Inr ad
      | None \<Rightarrow>
          (if fails_at (store_faults w) 0 then Inl StoreFault
           else case find (\<lambda>r. ID r = i) (rows w) of
                  None \<Rightarrow> Inl ErrNoRows
                | Some r \<Rightarrow> Inr r))"
  by (simp add: repository_GetAdByID_def calls Let_def
        split: option.splits sum.splits prod.splits)

lemma service_GetAdByID_result:
  "0 < i \<Longrightarrow> fst (service_GetAdByID E w i) =
     (case fst (repository_GetAdByID E w i) of
        Inl err \<Rightarrow> if errors_Is err ErrNoRows then Inl ErrAdNotFound else Inl err
      | Inr ad \<Rightarrow> Inr ad)"
  by (simp add: service_GetAdByID_def split: prod.splits sum.splits)

text \<open>\<^verbatim>\<open>GetAllAds\<close> on a request that is not the default page: one store query, no more.\<close>

lemma GetAllAds_other:
  assumes "\<not> isDefaultPagination limit offset sortBy order"
  shows "repository_GetAllAds E w limit offset sortBy order =
           (case (if fails_at (store_faults w) 0 then QueryFails
                  else mysql_page E (page_query sortBy order) limit offset (rows w)) of
              QueryFails \<Rightarrow> Inl (Errorf ''failed to retrieve ads'' StoreFault)
            | ScanFails \<Rightarrow> Inl (Errorf ''failed to scan ad'' StoreFault)
            | RowsErrFails \<Rightarrow> Inl (Errorf ''rows error'' StoreFault)
            | Yields ads \<Rightarrow> Inr ads,
            w\<lparr>store_faults := tl (store_faults w),
              trace := trace w @ [StoreQuery (page_query sortBy order) limit offset]\<rparr>)"
  using assms
  by (simp add: repository_GetAllAds_def calls split: rows_outcome.splits)

lemma GetAllAds_default_trace:
  assumes "isDefaultPagination limit offset sortBy order"
  shows "\<exists>es. trace (snd (repository_GetAllAds E w limit offset sortBy order))
               = trace w @ CacheGet default_page_key # es"
  using assms
  by (simp add: repository_GetAllAds_def calls Let_def
        split: rows_outcome.splits option.splits sum.splits prod.splits)

lemma GetAllAds_default_events:
  assumes "isDefaultPagination limit offset sortBy order"
      and "w' = snd (repository_GetAllAds E w limit offset sortBy order)"
  shows "new_events w w' = [CacheGet default_page_key]
       \<or> list_ex (\<lambda>e. e = StoreQuery (page_query sortBy order) limit offset) (new_events w w')"
  using assms
  by (simp add: repository_GetAllAds_def calls Let_def new_events_def
        split: rows_outcome.splits option.splits sum.splits prod.splits)

lemma allowed_default:
  "isDefaultPagination limit offset sortBy order
   \<Longrightarrow> sortBy \<in> set allowed_sort_columns \<and> order \<in> set allowed_sort_directions"
  by (simp add: isDefaultPagination_def allowed_sort_columns_def allowed_sort_directions_def)

lemma GetAllAds_error:
  "fst (repository_GetAllAds E w limit offset sortBy order) = Inl e \<Longrightarrow> errors_Is e StoreFault"
  by (auto simp: repository_GetAllAds_def calls Let_def
        split: rows_outcome.splits option.splits sum.splits prod.splits if_splits)

lemma CountAds_error:
  "fst (repository_CountAds w) = Inl e \<Longrightarrow> errors_Is e StoreFault"
  by (auto simp: repository_CountAds_def calls split: if_splits)

section \<open>Updates and the per-id cache entry\<close>

text \<open>
  Claim C1, as the code has it.  When \<^verbatim>\<open>UpdateAd\<close> returns the updated row, it has
  issued, in this order, the update, the delete of the key \<^verbatim>\<open>ad:<id>\<close>, the re-read of
  the row and, when the row serialises, the set of the key to the serialised row with
  the ten-minute expiration; the row returned is the one the store now holds.  The
  errors of the two cache calls are dropped.  If the delete took effect, or the set did,
  and the serialised row parses back to the row, the next \<^verbatim>\<open>GetAdByID\<close> of that id
  returns the updated row, or the store's error when it has to read the store and that
  read fails: it never returns a value cached before the update.
\<close>

theorem UpdateAd_then_GetAdByID_fresh:
  assumes success: "repository_UpdateAd E w ad = (Inr updatedAd, w')"
      and effective: "\<not> fails_at (cache_faults w) 0
                      \<or> json_Marshal_Ad E updatedAd \<noteq> None \<and> \<not> fails_at (cache_faults w) 1"
      and roundtrip: "\<forall>s. json_Marshal_Ad E updatedAd = Some s
                          \<longrightarrow> json_Unmarshal_Ad E s = Some updatedAd"
  shows "new_events w w' =
           [StoreExecUpdate ad, CacheDelete (ad_key (ID ad)), StoreQueryRow (ID ad)]
           @ (case json_Marshal_Ad E updatedAd of None \<Rightarrow> []
              | Some s \<Rightarrow> [CacheSet (ad_key (ID ad)) s ten_minutes])
       \<and> find (\<lambda>r. ID r = ID ad) (rows w') = Some updatedAd
       \<and> (fst (repository_GetAdByID E w' (ID ad)) = Inr updatedAd
            \<or> fails_at (store_faults w') 0
              \<and> fst (repository_GetAdByID E w' (ID ad)) = Inl StoreFault)"
proof -
  note s = UpdateAd_success [OF success]
  have ev: "new_events w w' =
           [StoreExecUpdate ad, CacheDelete (ad_key (ID ad)), StoreQueryRow (ID ad)]
           @ (case json_Marshal_Ad E updatedAd of None \<Rightarrow> []
              | Some s \<Rightarrow> [CacheSet (ad_key (ID ad)) s ten_minutes])"
    using s by (simp add: new_events_def)
  have row: "find (\<lambda>r. ID r = ID ad) (rows w') = Some updatedAd"
    using s by simp
  have key: "redis w' (ad_key (ID ad)) = None
           \<or> (\<exists>s. json_Marshal_Ad E updatedAd = Some s
                 \<and> redis w' (ad_key (ID ad)) = Some (s, clock w' + ten_minutes))"
    using s effective by (auto split: option.splits if_splits)
  have get: "fst (repository_GetAdByID E w' (ID ad)) = Inr updatedAd
            \<or> fails_at (store_faults w') 0
              \<and> fst (repository_GetAdByID E w' (ID ad)) = Inl StoreFault"
    using key row roundtrip
    by (auto simp: GetAdByID_result ten_minutes_def split: option.splits if_splits)
  from ev row get show ?thesis by blast
qed

text \<open>
  On the example: the price of ad 7 goes from 50 to 40 with a cache that answers; the
  four calls are made and the next read returns the row with the new price.
\<close>

theorem UpdateAd_then_GetAdByID_fresh_witness:
  "fst (repository_UpdateAd demo_env demo_world bike_request) = Inr bike_updated
   \<and> new_events demo_world (snd (repository_UpdateAd demo_env demo_world bike_request))
       = [StoreExecUpdate bike_request, CacheDelete ''ad:7'', StoreQueryRow 7,
          CacheSet ''ad:7'' ''bike40'' 600]
   \<and> fst (repository_GetAdByID demo_env
            (snd (repository_UpdateAd demo_env demo_world bike_request)) 7) = Inr bike_updated"
proof -
  let ?U = "repository_UpdateAd demo_env demo_world bike_request"
  have f: "fst ?U = Inr bike_updated"
    by (simp add: run)
  have up: "?U = (Inr bike_updated, snd ?U)"
    using f by (simp add: prod_eq_iff)
  have ok: "\<not> fails_at (cache_faults demo_world) 0"
    by (simp add: run)
  have rt: "\<forall>s. json_Marshal_Ad demo_env bike_updated = Some s
                \<longrightarrow> json_Unmarshal_Ad demo_env s = Some bike_updated"
    by (simp add: run)
  have m: "json_Marshal_Ad demo_env bike_updated = Some ''bike40''"
    by (simp add: run)
  have nf: "\<not> fails_at (store_faults (snd ?U)) 0"
    by (simp add: run)
  have k: "ad_key (ID bike_request) = ''ad:7''" "ID bike_request = 7" "ten_minutes = 600"
    by (simp_all add: run)
  show ?thesis
    using UpdateAd_then_GetAdByID_fresh [OF up disjI1 [OF ok] rt] f m nf k by simp
qed

text \<open>
  Claim C1 as it was stated fails when both cache calls of the update fail: the update
  succeeds and returns the row with the new price, the key still holds the copy cached
  before the update, and the next \<^verbatim>\<open>GetAdByID\<close> returns that copy.
\<close>

theorem UpdateAd_stale_when_cache_calls_fail:
  "fst (repository_UpdateAd demo_env (demo_world\<lparr>cache_faults := [True, True]\<rparr>) bike_request)
     = Inr bike_updated
   \<and> fst (repository_GetAdByID demo_env
            (snd (repository_UpdateAd demo_env (demo_world\<lparr>cache_faults := [True, True]\<rparr>)
                    bike_request)) 7) = Inr bike
   \<and> bike \<noteq> bike_updated"
  by (simp add: run)

text \<open>
  Claim C4.  When the store reports zero rows affected for the update, \<^verbatim>\<open>UpdateAd\<close>
  returns \<^verbatim>\<open>sql.ErrNoRows\<close>, the only call it has made is the update statement, and the
  cache is as it was: no get, no set, no delete on any key, the key space unchanged and
  no cache call consumed.
\<close>

theorem UpdateAd_zero_rows_no_cache:
  assumes "update_report w ad = Inr 0"
      and "w' = snd (repository_UpdateAd E w ad)"
  shows "fst (repository_UpdateAd E w ad) = Inl ErrNoRows
       \<and> new_events w w' = [StoreExecUpdate ad]
       \<and> filter (\<lambda>e. cache_key_of e \<noteq> None) (new_events w w') = []
       \<and> redis w' = redis w \<and> cache_faults w' = cache_faults w"
  using assms
  by (simp add: update_report_eq repository_UpdateAd_def calls fails_at_tl new_events_def
        split: if_splits)

text \<open>On the example: an update of ad 8, which the table does not hold.\<close>

theorem UpdateAd_zero_rows_no_cache_witness:
  "update_report demo_world lamp = Inr 0
   \<and> fst (repository_UpdateAd demo_env demo_world lamp) = Inl ErrNoRows
   \<and> new_events demo_world (snd (repository_UpdateAd demo_env demo_world lamp))
       = [StoreExecUpdate lamp]
   \<and> redis (snd (repository_UpdateAd demo_env demo_world lamp)) = redis demo_world"
proof -
  have z: "update_report demo_world lamp = Inr 0"
    by (simp add: update_report_def run)
  show ?thesis
    using UpdateAd_zero_rows_no_cache [OF z refl, of demo_env] z by simp
qed

text \<open>
  Claim C10.  When the update affects a row and the re-read of the row then fails,
  \<^verbatim>\<open>UpdateAd\<close> returns an error although the store already holds the new columns and
  the delete of the key \<^verbatim>\<open>ad:<id>\<close> has been issued (and, unless that call failed, has
  removed the key): the state is not unchanged on this error.
\<close>

theorem UpdateAd_error_after_change:
  assumes "update_report w ad = Inr n" and "n \<noteq> 0"
      and "fails_at (store_faults w) 2"
      and "w' = snd (repository_UpdateAd E w ad)"
  shows "fst (repository_UpdateAd E w ad) = Inl (Errorf ''failed to fetch updated ad'' StoreFault)
       \<and> rows w' = map (\<lambda>r. if ID r = ID ad then set_columns ad (clock w) r else r) (rows w)
       \<and> new_events w w'
           = [StoreExecUpdate ad, CacheDelete (ad_key (ID ad)), StoreQueryRow (ID ad)]
       \<and> redis w' = (if fails_at (cache_faults w) 0 then redis w
                      else (redis w)(ad_key (ID ad) := None))"
  using assms
  by (auto simp: update_report_eq repository_UpdateAd_def calls fails_at_tl new_events_def
        eval_nat_numeral Let_def
      split: if_splits)

text \<open>
  On the example: the third store call fails; the error comes back, the table holds the
  new price and the cached copy is gone.
\<close>

theorem UpdateAd_error_after_change_witness:
  "fst (repository_UpdateAd demo_env (demo_world\<lparr>store_faults := [False, False, True]\<rparr>)
          bike_request)
     = Inl (Errorf ''failed to fetch updated ad'' StoreFault)
   \<and> rows (snd (repository_UpdateAd demo_env
                  (demo_world\<lparr>store_faults := [False, False, True]\<rparr>) bike_request))
       = [bike_updated]
   \<and> rows (demo_world\<lparr>store_faults := [False, False, True]\<rparr>) = [bike]
   \<and> redis (snd (repository_UpdateAd demo_env
                  (demo_world\<lparr>store_faults := [False, False, True]\<rparr>) bike_request)) ''ad:7''
       = None
   \<and> redis (demo_world\<lparr>store_faults := [False, False, True]\<rparr>) ''ad:7''
       = Some (''bike50'', 2500)"
proof -
  let ?w = "demo_world\<lparr>store_faults := [False, False, True]\<rparr>"
  have r: "update_report ?w bike_request = Inr 1"
    by (simp add: update_report_def run)
  have f: "fails_at (store_faults ?w) 2"
    by (simp add: run)
  have e: "rows ?w = [bike]" "redis ?w ''ad:7'' = Some (''bike50'', 2500)"
      "\<not> fails_at (cache_faults ?w) 0" "clock ?w = 2000"
      "ad_key (ID bike_request) = ''ad:7''"
      "set_columns bike_request 2000 bike = bike_updated" "ID bike = ID bike_request"
    by (simp_all add: run)
  show ?thesis
    using UpdateAd_error_after_change [OF r _ f refl, of demo_env] e by simp
qed

section \<open>Deletes and the per-id cache entry\<close>

text \<open>
  Claim C5, as the code has it.  When \<^verbatim>\<open>DeleteAd\<close> succeeds it has issued the delete
  statement and then the delete of the key \<^verbatim>\<open>ad:<id>\<close>, whose error it drops.  If that
  cache call did not fail, the key is gone and the next \<^verbatim>\<open>GetAdByID\<close> reads the store:
  the repository returns \<^verbatim>\<open>sql.ErrNoRows\<close> and the service, for a positive id,
  \<^verbatim>\<open>ErrAdNotFound\<close> (or the store's error when that read fails), never a cached value.
  When the store reports zero rows affected, \<^verbatim>\<open>DeleteAd\<close> returns \<^verbatim>\<open>sql.ErrNoRows\<close>
  and has made no call on the cache.
\<close>

theorem DeleteAd_then_GetAdByID_not_found:
  "(repository_DeleteAd w i = (Inr (), w') \<and> \<not> fails_at (cache_faults w) 0
      \<longrightarrow> new_events w w' = [StoreExecDelete i, CacheDelete (ad_key i)]
        \<and> redis w' (ad_key i) = None
        \<and> fst (repository_GetAdByID E w' i)
            = (if fails_at (store_faults w') 0 then Inl StoreFault else Inl ErrNoRows)
        \<and> (0 < i \<longrightarrow> fst (service_GetAdByID E w' i)
            = (if fails_at (store_faults w') 0 then Inl StoreFault else Inl ErrAdNotFound)))
   \<and> (delete_report w i = Inr 0
      \<longrightarrow> fst (repository_DeleteAd w i) = Inl ErrNoRows
        \<and> new_events w (snd (repository_DeleteAd w i)) = [StoreExecDelete i]
        \<and> redis (snd (repository_DeleteAd w i)) = redis w
        \<and> cache_faults (snd (repository_DeleteAd w i)) = cache_faults w)"
proof (intro conjI impI)
  assume a: "repository_DeleteAd w i = (Inr (), w') \<and> \<not> fails_at (cache_faults w) 0"
  note s = DeleteAd_success [OF conjunct1 [OF a]]
  show "new_events w w' = [StoreExecDelete i, CacheDelete (ad_key i)]"
    using s by (simp add: new_events_def)
  show k: "redis w' (ad_key i) = None"
    using s a by simp
  show g: "fst (repository_GetAdByID E w' i)
            = (if fails_at (store_faults w') 0 then Inl StoreFault else Inl ErrNoRows)"
    using s k by (simp add: GetAdByID_result find_deleted)
  assume "0 < i"
  then show "fst (service_GetAdByID E w' i)
            = (if fails_at (store_faults w') 0 then Inl StoreFault else Inl ErrAdNotFound)"
    using g by (simp add: service_GetAdByID_result)
next
  assume z: "delete_report w i = Inr 0"
  then show "fst (repository_DeleteAd w i) = Inl ErrNoRows"
    by (simp add: delete_report_eq repository_DeleteAd_def calls fails_at_tl split: if_splits)
  from z show "new_events w (snd (repository_DeleteAd w i)) = [StoreExecDelete i]"
    by (simp add: delete_report_eq repository_DeleteAd_def calls fails_at_tl new_events_def
          split: if_splits)
  from z show "redis (snd (repository_DeleteAd w i)) = redis w"
    by (simp add: delete_report_eq repository_DeleteAd_def calls fails_at_tl split: if_splits)
  from z show "cache_faults (snd (repository_DeleteAd w i)) = cache_faults w"
    by (simp add: delete_report_eq repository_DeleteAd_def calls fails_at_tl split: if_splits)
qed

text \<open>
  On the example: ad 7 is deleted with a cache that answers, and then not found; ad 8 is
  not in the table, and its delete makes the one store call.
\<close>

theorem DeleteAd_then_GetAdByID_not_found_witness:
  "fst (repository_DeleteAd demo_world 7) = Inr ()
   \<and> new_events demo_world (snd (repository_DeleteAd demo_world 7))
       = [StoreExecDelete 7, CacheDelete ''ad:7'']
   \<and> redis (snd (repository_DeleteAd demo_world 7)) ''ad:7'' = None
   \<and> fst (service_GetAdByID demo_env (snd (repository_DeleteAd demo_world 7)) 7)
       = Inl ErrAdNotFound
   \<and> delete_report demo_world 8 = Inr 0
   \<and> fst (repository_DeleteAd demo_world 8) = Inl ErrNoRows
   \<and> new_events demo_world (snd (repository_DeleteAd demo_world 8)) = [StoreExecDelete 8]
   \<and> redis (snd (repository_DeleteAd demo_world 8)) = redis demo_world"
proof -
  let ?D = "repository_DeleteAd demo_world 7"
  have f: "fst ?D = Inr ()"
    by (simp add: run)
  have d: "?D = (Inr (), snd ?D)"
    using f by (simp add: prod_eq_iff)
  have ok: "\<not> fails_at (cache_faults demo_world) 0"
    by (simp add: run)
  have nf: "\<not> fails_at (store_faults (snd ?D)) 0"
    by (simp add: run)
  have k: "ad_key 7 = ''ad:7''"
    by (simp add: run)
  have z: "delete_report demo_world 8 = Inr 0"
    by (simp add: delete_report_def run)
  show ?thesis
    using DeleteAd_then_GetAdByID_not_found [of demo_world 7 "snd ?D" demo_env]
      DeleteAd_then_GetAdByID_not_found [of demo_world 8 "snd ?D" demo_env]
      d f ok nf k z
    by simp
qed

text \<open>
  Claim C5 as it was stated fails when the cache delete fails: the delete of ad 7
  succeeds, the key keeps the cached copy, and the next \<^verbatim>\<open>GetAdByID\<close> of the service
  returns that copy instead of \<^verbatim>\<open>ErrAdNotFound\<close>.
\<close>

theorem DeleteAd_stale_when_cache_delete_fails:
  "fst (repository_DeleteAd (demo_world\<lparr>cache_faults := [True]\<rparr>) 7) = Inr ()
   \<and> fst (service_GetAdByID demo_env
            (snd (repository_DeleteAd (demo_world\<lparr>cache_faults := [True]\<rparr>) 7)) 7) = Inr bike"
  by (simp add: run service_GetAdByID_def)

section \<open>The list query and its cache\<close>

text \<open>
  Claim C2.  \<^verbatim>\<open>GetAllAds\<close> makes a call on the key \<^verbatim>\<open>ads:default_page\<close> exactly when
  its parameters are the tuple (10, 0, created_at, ASC).  For every other tuple its only
  call is the page query on the store: no cache get, no cache set, the key space and the
  cache's coming calls untouched.
\<close>

theorem GetAllAds_list_cache_iff_default:
  assumes "w' = snd (repository_GetAllAds E w limit offset sortBy order)"
  shows "list_ex (\<lambda>e. cache_key_of e = Some default_page_key) (new_events w w')
           = isDefaultPagination limit offset sortBy order
       \<and> (\<not> isDefaultPagination limit offset sortBy order
            \<longrightarrow> new_events w w' = [StoreQuery (page_query sortBy order) limit offset]
              \<and> redis w' = redis w \<and> cache_faults w' = cache_faults w)"
proof (cases "isDefaultPagination limit offset sortBy order")
  case True
  from GetAllAds_default_trace [OF True, of E w] obtain es where
    "trace w' = trace w @ CacheGet default_page_key # es"
    using assms by auto
  then show ?thesis
    using True by (simp add: new_events_def)
next
  case False
  then show ?thesis
    using assms by (simp add: GetAllAds_other new_events_def)
qed

text \<open>
  On the example: the request (5, 0, price, DESC) goes to the store only; the default
  request touches the list key.
\<close>

theorem GetAllAds_list_cache_iff_default_witness:
  "new_events demo_world (snd (repository_GetAllAds demo_env demo_world 5 0 ''price'' ''DESC''))
     = [StoreQuery (page_query ''price'' ''DESC'') 5 0]
   \<and> redis (snd (repository_GetAllAds demo_env demo_world 5 0 ''price'' ''DESC''))
       = redis demo_world
   \<and> list_ex (\<lambda>e. cache_key_of e = Some default_page_key)
        (new_events demo_world
           (snd (repository_GetAllAds demo_env demo_world 10 0 ''created_at'' ''ASC'')))"
proof -
  have n: "\<not> isDefaultPagination 5 0 ''price'' ''DESC''"
    by (simp add: isDefaultPagination_def)
  have d: "isDefaultPagination 10 0 ''created_at'' ''ASC''"
    by (simp add: isDefaultPagination_def)
  show ?thesis
    using GetAllAds_list_cache_iff_default
            [OF refl, of demo_world demo_env 5 0 "''price''" "''DESC''"]
      GetAllAds_list_cache_iff_default
            [OF refl, of demo_world demo_env 10 0 "''created_at''" "''ASC''"] n d
    by simp
qed

text \<open>
  Claim C3, as the code has it.  \<^verbatim>\<open>GetAllAds\<close> checks neither \<^verbatim>\<open>sortBy\<close> nor \<^verbatim>\<open>order\<close>:
  unless the default page is answered from the cache, the query it executes is the
  template with both values put in as they came; in particular, for a sort column
  outside the list (id, title, price, created_at, updated_at) or a direction outside
  (ASC, DESC), the one call made is that query with that value in its text.
\<close>

theorem GetAllAds_sort_interpolated_verbatim:
  assumes "w' = snd (repository_GetAllAds E w limit offset sortBy order)"
  shows "(isDefaultPagination limit offset sortBy order
            \<and> new_events w w' = [CacheGet default_page_key]
          \<or> list_ex (\<lambda>e. e = StoreQuery (page_query sortBy order) limit offset)
               (new_events w w'))
       \<and> (sortBy \<notin> set allowed_sort_columns \<or> order \<notin> set allowed_sort_directions
            \<longrightarrow> new_events w w' = [StoreQuery (page_query sortBy order) limit offset])"
proof (cases "isDefaultPagination limit offset sortBy order")
  case True
  then show ?thesis
    using GetAllAds_default_events [OF True assms] allowed_default [OF True] by blast
next
  case False
  then show ?thesis
    using assms by (simp add: GetAllAds_other new_events_def)
qed

text \<open>On the example: the sort column \<^verbatim>\<open>(SELECT 1)\<close> is in the text of the one query made.\<close>

theorem GetAllAds_sort_interpolated_verbatim_witness:
  "new_events demo_world
        (snd (repository_GetAllAds demo_env demo_world 5 0 ''(SELECT 1)'' ''DESC''))
      = [StoreQuery (page_query ''(SELECT 1)'' ''DESC'') 5 0]"
proof -
  have "''(SELECT 1)'' \<notin> set allowed_sort_columns"
    by (simp add: allowed_sort_columns_def)
  then show ?thesis
    using GetAllAds_sort_interpolated_verbatim
            [of "snd (repository_GetAllAds demo_env demo_world 5 0 ''(SELECT 1)'' ''DESC'')"
                demo_env demo_world 5 0 "''(SELECT 1)''" "''DESC''"]
    by simp
qed

text \<open>
  Claim C3 as it was stated fails: a sort column that is not in the list reaches the
  text of the executed query.
\<close>

theorem GetAllAds_sort_outside_allow_list:
  "''(SELECT 1)'' \<notin> set allowed_sort_columns
   \<and> new_events demo_world
        (snd (repository_GetAllAds demo_env demo_world 5 0 ''(SELECT 1)'' ''DESC''))
      = [StoreQuery
           (line_break
            @ ''SELECT id, title, description, price, created_at, updated_at, active''
            @ line_break @ ''FROM ads''
            @ line_break @ ''ORDER BY (SELECT 1) DESC''
            @ line_break @ ''LIMIT ? OFFSET ?'') 5 0]"
  by (simp add: run allowed_sort_columns_def page_query_def)

section \<open>Reads and cache failures\<close>

text \<open>
  Claim C6.  For \<^verbatim>\<open>GetAdByID\<close> and for \<^verbatim>\<open>GetAllAds\<close> on the default page: when the
  cache get returns an error, or a value that does not parse, the result of the read is
  the store's answer, whatever the serialisation and the cache set do afterwards; so a
  store read that succeeds is returned even when they fail.  An error a read returns
  is the store's: \<^verbatim>\<open>sql.ErrNoRows\<close> or a store failure for \<^verbatim>\<open>GetAdByID\<close>, a wrapped
  store failure for \<^verbatim>\<open>GetAllAds\<close>; never an error of the cache.
\<close>

theorem reads_survive_cache_failures:
  "(fst (cache_Get w (ad_key i)) = Inl err
      \<or> fst (cache_Get w (ad_key i)) = Inr s \<and> json_Unmarshal_Ad E s = None
    \<longrightarrow> fst (repository_GetAdByID E w i)
          = fst (db_QueryRowContext_id (snd (cache_Get w (ad_key i))) i))
   \<and> (\<forall>e. fst (repository_GetAdByID E w i) = Inl e \<longrightarrow> e = StoreFault \<or> e = ErrNoRows)
   \<and> (fst (cache_Get w default_page_key) = Inl err
      \<or> fst (cache_Get w default_page_key) = Inr s \<and> json_Unmarshal_Ads E s = None
    \<longrightarrow> fst (repository_GetAllAds E w 10 0 ''created_at'' ''ASC'')
          = (case fst (db_QueryContext_page E (snd (cache_Get w default_page_key))
                         (page_query ''created_at'' ''ASC'') 10 0) of
               QueryFails \<Rightarrow> Inl (Errorf ''failed to retrieve ads'' StoreFault)
             | ScanFails \<Rightarrow> Inl (Errorf ''failed to scan ad'' StoreFault)
             | RowsErrFails \<Rightarrow> Inl (Errorf ''rows error'' StoreFault)
             | Yields ads \<Rightarrow> Inr ads))
   \<and> (\<forall>e. fst (repository_GetAllAds E w limit offset sortBy order) = Inl e
          \<longrightarrow> errors_Is e StoreFault)"
proof (intro conjI impI allI)
  assume "fst (cache_Get w (ad_key i)) = Inl err
      \<or> fst (cache_Get w (ad_key i)) = Inr s \<and> json_Unmarshal_Ad E s = None"
  then show "fst (repository_GetAdByID E w i)
          = fst (db_QueryRowContext_id (snd (cache_Get w (ad_key i))) i)"
    by (auto simp: repository_GetAdByID_def Let_def split: prod.splits sum.splits option.splits)
next
  fix e assume "fst (repository_GetAdByID E w i) = Inl e"
  then show "e = StoreFault \<or> e = ErrNoRows"
    by (auto simp: GetAdByID_result split: option.splits if_splits prod.splits)
next
  assume "fst (cache_Get w default_page_key) = Inl err
      \<or> fst (cache_Get w default_page_key) = Inr s \<and> json_Unmarshal_Ads E s = None"
  then show "fst (repository_GetAllAds E w 10 0 ''created_at'' ''ASC'')
          = (case fst (db_QueryContext_page E (snd (cache_Get w default_page_key))
                         (page_query ''created_at'' ''ASC'') 10 0) of
               QueryFails \<Rightarrow> Inl (Errorf ''failed to retrieve ads'' StoreFault)
             | ScanFails \<Rightarrow> Inl (Errorf ''failed to scan ad'' StoreFault)
             | RowsErrFails \<Rightarrow> Inl (Errorf ''rows error'' StoreFault)
             | Yields ads \<Rightarrow> Inr ads)"
    by (auto simp: repository_GetAllAds_def isDefaultPagination_def Let_def
          split: prod.splits sum.splits option.splits rows_outcome.splits)
next
  fix e assume "fst (repository_GetAllAds E w limit offset sortBy order) = Inl e"
  then show "errors_Is e StoreFault"
    by (rule GetAllAds_error)
qed

text \<open>
  On the example: with the cache get and the cache set both failing, the two reads
  return what the store holds; with the cache get and the store read both failing, they
  return the store's error.
\<close>

theorem reads_survive_cache_failures_witness:
  "fst (cache_Get (demo_world\<lparr>cache_faults := [True, True]\<rparr>) (ad_key 7)) = Inl CacheFault
   \<and> fst (repository_GetAdByID demo_env (demo_world\<lparr>cache_faults := [True, True]\<rparr>) 7)
       = Inr bike
   \<and> fst (cache_Get (demo_world\<lparr>cache_faults := [True, True]\<rparr>) default_page_key)
       = Inl CacheFault
   \<and> fst (repository_GetAllAds demo_env (demo_world\<lparr>cache_faults := [True, True]\<rparr>)
             10 0 ''created_at'' ''ASC'') = Inr [bike]
   \<and> fst (repository_GetAdByID demo_env
            (demo_world\<lparr>cache_faults := [True], store_faults := [True]\<rparr>) 7)
       = Inl StoreFault
   \<and> fst (repository_GetAllAds demo_env
            (demo_world\<lparr>cache_faults := [True], store_faults := [True]\<rparr>)
             10 0 ''created_at'' ''ASC'') = Inl (Errorf ''failed to retrieve ads'' StoreFault)"
proof -
  let ?a = "demo_world\<lparr>cache_faults := [True, True]\<rparr>"
  let ?b = "demo_world\<lparr>cache_faults := [True], store_faults := [True]\<rparr>"
  have g: "fst (cache_Get ?a (ad_key 7)) = Inl CacheFault"
      "fst (cache_Get ?a default_page_key) = Inl CacheFault"
    by (simp_all add: run)
  have s: "fst (db_QueryRowContext_id (snd (cache_Get ?a (ad_key 7))) 7) = Inr bike"
      "fst (db_QueryContext_page demo_env (snd (cache_Get ?a default_page_key))
              (page_query ''created_at'' ''ASC'') 10 0) = Yields [bike]"
    by (simp_all add: run)
  have e: "fst (repository_GetAdByID demo_env ?b 7) = Inl StoreFault"
      "fst (repository_GetAllAds demo_env ?b 10 0 ''created_at'' ''ASC'')
         = Inl (Errorf ''failed to retrieve ads'' StoreFault)"
    by (simp_all add: run)
  show ?thesis
    using reads_survive_cache_failures
            [of ?a 7 CacheFault _ demo_env 10 0 "''created_at''" "''ASC''"]
      reads_survive_cache_failures
            [of ?b 7 CacheFault _ demo_env 10 0 "''created_at''" "''ASC''"] g s e
    by simp
qed

section \<open>The service: identifiers\<close>

text \<open>
  Claim C8.  For an id that is zero or negative, \<^verbatim>\<open>GetAdByID\<close>, \<^verbatim>\<open>UpdateAd\<close> (of an ad
  with that id) and \<^verbatim>\<open>DeleteAd\<close> of the service return \<^verbatim>\<open>ErrInvalidID\<close> and leave the
  world as it was: no call on the store, none on the cache.
\<close>

theorem invalid_id_rejected_without_calls:
  assumes "i \<le> 0" and "ID ad = i"
  shows "service_GetAdByID E w i = (Inl ErrInvalidID, w)
       \<and> service_UpdateAd E w ad = (Inl ErrInvalidID, w)
       \<and> service_DeleteAd w i = (Inl ErrInvalidID, w)"
  using assms by (simp add: service_GetAdByID_def service_UpdateAd_def service_DeleteAd_def)

text \<open>On the example: the id 0.\<close>

theorem invalid_id_rejected_without_calls_witness:
  "service_GetAdByID demo_env demo_world 0 = (Inl ErrInvalidID, demo_world)
   \<and> service_UpdateAd demo_env demo_world (bike\<lparr>ID := 0\<rparr>) = (Inl ErrInvalidID, demo_world)
   \<and> service_DeleteAd demo_world 0 = (Inl ErrInvalidID, demo_world)"
  using invalid_id_rejected_without_calls [of 0 "bike\<lparr>ID := 0\<rparr>" demo_env demo_world] by simp

section \<open>The service: pagination\<close>

text \<open>64-bit arithmetic agrees with the integers as long as nothing leaves the range.\<close>

lemma wrap64_id: "- (2 ^ 63) \<le> x \<Longrightarrow> x < 2 ^ 63 \<Longrightarrow> wrap64 x = x"
  by (simp add: wrap64_def)

lemma wrap64_pred: "wrap64 (wrap64 x - 1) = wrap64 (x - 1)"
proof -
  have "((x + 2 ^ 63) mod 2 ^ 64 - 1) mod 2 ^ 64 = (x + 2 ^ 63 - 1) mod (2 ^ 64 :: int)"
    by (rule mod_diff_left_eq)
  then show ?thesis
    by (simp add: wrap64_def algebra_simps)
qed

lemma div_le_self_int: "0 \<le> (a::int) \<Longrightarrow> 0 < b \<Longrightarrow> a div b \<le> a"
  using zdiv_mono2 [of a 1 b] by simp

lemma go_quo_nonneg:
  assumes "0 \<le> a" and "0 < b" and "a < 2 ^ 63"
  shows "go_quo a b = a div b"
proof -
  have "a div b \<le> a"
    using assms by (simp add: div_le_self_int)
  moreover have "0 \<le> a div b"
    using assms by (simp add: pos_imp_zdiv_nonneg_iff)
  ultimately have "wrap64 (a div b) = a div b"
    using assms by (intro wrap64_id) auto
  moreover have "sgn a * sgn b * (\<bar>a\<bar> div \<bar>b\<bar>) = a div b"
    using assms by (cases "a = 0") (simp_all add: sgn_if)
  ultimately show ?thesis
    by (simp add: go_quo_def)
qed

lemma ceiling_div:
  assumes "0 < (b :: int)"
  shows "(a + b - 1) div b = \<lceil>real_of_int a / real_of_int b\<rceil>"
proof -
  have split: "a + b - 1 = (a mod b + b - 1) + b * (a div b)"
    by (simp add: algebra_simps)
  have "(a + b - 1) div b = (a mod b + b - 1) div b + a div b"
    using assms by (subst split, subst div_mult_self2) auto
  moreover have "(a mod b + b - 1) div b = (if a mod b = 0 then 0 else 1)"
  proof (cases "a mod b = 0")
    case True
    then show ?thesis using assms by (simp add: div_pos_pos_trivial)
  next
    case False
    have "0 \<le> a mod b" "a mod b < b"
      using assms by simp_all
    with False have "0 < a mod b" "a mod b < b"
      by linarith+
    then have "(a mod b - 1) div b = 0"
      by (intro div_pos_pos_trivial) linarith+
    then have "(a mod b - 1 + b * 1) div b = 0 + 1"
      using assms by (subst div_mult_self2) auto
    then show ?thesis using False by (simp add: algebra_simps)
  qed
  moreover have "\<lceil>real_of_int a / real_of_int b\<rceil>
                  = (if a mod b = 0 then a div b else a div b + 1)"
    using assms by (simp add: ceiling_divide_eq_div zdiv_zminus1_eq_if)
  ultimately show ?thesis by simp
qed

text \<open>
  Where the sum \<^verbatim>\<open>totalCount + limit - 1\<close> and the page number stay within 64 bits, the
  metadata is what the specification says: the ceiling, the floor plus one, and the two
  optional pages present exactly when in range.
\<close>

lemma pagination_without_overflow:
  assumes "0 \<le> totalCount" and "0 < limit" and "0 \<le> offset"
      and "totalCount + limit - 1 < 2 ^ 63" and "offset + 1 < 2 ^ 63"
      and "p = pagination ads totalCount limit offset"
  shows "TotalPages p = \<lceil>real_of_int totalCount / real_of_int limit\<rceil>
       \<and> CurrentPage p = \<lfloor>real_of_int offset / real_of_int limit\<rfloor> + 1
       \<and> next_page_json p
           = (if CurrentPage p < TotalPages p then Some (CurrentPage p + 1) else None)
       \<and> prev_page_json p = (if 1 < CurrentPage p then Some (CurrentPage p - 1) else None)"
proof -
  have "wrap64 (wrap64 (totalCount + limit) - 1) = wrap64 (totalCount + limit - 1)"
    by (rule wrap64_pred)
  then have w1: "wrap64 (wrap64 (totalCount + limit) - 1) = totalCount + limit - 1"
    using assms by (simp add: wrap64_id)
  have tp: "TotalPages p = (totalCount + limit - 1) div limit"
    using assms by (simp add: pagination_def Let_def w1 go_quo_nonneg)
  have q: "go_quo offset limit = offset div limit"
    using assms by (simp add: go_quo_nonneg)
  have ql: "offset div limit \<le> offset" and q0: "0 \<le> offset div limit"
    using assms by (simp_all add: div_le_self_int pos_imp_zdiv_nonneg_iff)
  have cp: "CurrentPage p = offset div limit + 1"
    using assms ql q0 by (simp add: pagination_def Let_def q wrap64_id)
  have "(totalCount + limit - 1) div limit \<le> totalCount + limit - 1"
    using assms by (intro div_le_self_int) auto
  then have tpb: "TotalPages p < 2 ^ 63"
    using assms(4) unfolding tp by linarith
  have nx: "NextPage p = (if CurrentPage p < TotalPages p then CurrentPage p + 1 else 0)"
  proof -
    have "NextPage p = (if CurrentPage p < TotalPages p then wrap64 (CurrentPage p + 1) else 0)"
      using assms by (simp add: pagination_def Let_def)
    moreover have "CurrentPage p < TotalPages p
                   \<Longrightarrow> wrap64 (CurrentPage p + 1) = CurrentPage p + 1"
      using tpb q0 cp by (intro wrap64_id) auto
    ultimately show ?thesis by simp
  qed
  have pv: "PrevPage p = (if 1 < CurrentPage p then CurrentPage p - 1 else 0)"
  proof -
    have "PrevPage p = (if 1 < CurrentPage p then wrap64 (CurrentPage p - 1) else 0)"
      using assms by (simp add: pagination_def Let_def)
    moreover have "wrap64 (CurrentPage p - 1) = CurrentPage p - 1"
      using ql q0 cp assms by (intro wrap64_id) auto
    ultimately show ?thesis by simp
  qed
  show ?thesis
    using tp cp nx pv q0 assms
    by (auto simp: ceiling_div floor_divide_of_int_eq next_page_json_def prev_page_json_def)
qed

text \<open>The figures of the specification: 25 ads, ten a page, at offsets 0 and 20.\<close>

lemma pagination_examples:
  "TotalPages (pagination ads 25 10 0) = 3 \<and> CurrentPage (pagination ads 25 10 0) = 1
   \<and> next_page_json (pagination ads 25 10 0) = Some 2
   \<and> prev_page_json (pagination ads 25 10 0) = None
   \<and> TotalPages (pagination ads 25 10 20) = 3
   \<and> CurrentPage (pagination ads 25 10 20) = 3
   \<and> next_page_json (pagination ads 25 10 20) = None
   \<and> prev_page_json (pagination ads 25 10 20) = Some 2"
  by (simp add: pagination_def wrap64_def go_quo_def next_page_json_def prev_page_json_def)

text \<open>
  Claim C7 does not hold of the code for every count and limit.  The sum
  \<^verbatim>\<open>totalCount + limit - 1\<close> is computed in 64 bits and wraps around: with two ads in
  the table and the limit 9223372036854775807 (the largest the handler's
  \<^verbatim>\<open>strconv.Atoi\<close> yields), \<^verbatim>\<open>GetAllAds\<close> of the service answers with \<open>-1\<close> total pages,
  and so does the handler for the request \<^verbatim>\<open>limit=9223372036854775807\<close>, where the
  ceiling of 2 / 9223372036854775807 is 1.
\<close>

theorem GetAllAds_total_pages_overflow:
  "fst (service_GetAllAds demo_env (demo_world\<lparr>rows := [bike, lamp]\<rparr>)
          9223372036854775807 0 ''created_at'' ''ASC'')
     = Inr \<lparr>Ads = [bike, lamp], CurrentPage = 1, NextPage = 0, PrevPage = 0, TotalPages = - 1\<rparr>
   \<and> fst (handler_GetAllAds demo_env (demo_world\<lparr>rows := [bike, lamp]\<rparr>)
            [''limit'' \<mapsto> ''9223372036854775807''])
     = RespondWithJSON 200
         \<lparr>Ads = [bike, lamp], CurrentPage = 1, NextPage = 0, PrevPage = 0, TotalPages = - 1\<rparr>
   \<and> \<lceil>(2 :: real) / 9223372036854775807\<rceil> = (1 :: int)"
  by (simp add: run run_service ceiling_eq_iff)

section \<open>The handler: the limit of a list request\<close>

lemma service_GetAllAds_panic_iff:
  "(fst (service_GetAllAds E w limit offset sortBy order) = Inl DivideByZeroPanic)
   = (limit = 0
      \<and> (\<exists>ads. fst (repository_GetAllAds E w limit offset sortBy order) = Inr ads)
      \<and> (\<exists>n. fst (repository_CountAds
                       (snd (repository_GetAllAds E w limit offset sortBy order))) = Inr n))"
proof -
  obtain r w1 where g: "repository_GetAllAds E w limit offset sortBy order = (r, w1)"
    by (cases "repository_GetAllAds E w limit offset sortBy order")
  obtain c w2 where k: "repository_CountAds w1 = (c, w2)"
    by (cases "repository_CountAds w1")
  have r: "r \<noteq> Inl DivideByZeroPanic"
    using GetAllAds_error [of E w limit offset sortBy order DivideByZeroPanic] g by auto
  have c: "c \<noteq> Inl DivideByZeroPanic"
    using CountAds_error [of w1 DivideByZeroPanic] k by auto
  show ?thesis
    using g k r c by (cases r; cases c) (auto simp: service_GetAllAds_def)
qed

lemma service_GetAllAds_panic:
  "fst (service_GetAllAds E w limit offset sortBy order) = Inl DivideByZeroPanic \<Longrightarrow> limit = 0"
  by (simp add: service_GetAllAds_panic_iff)

lemma handler_limit_pos: "0 < handler_limit q"
  by (simp add: handler_limit_def split: sum.splits)

lemma handler_calls_service:
  "snd (handler_GetAllAds E w q)
     = snd (service_GetAllAds E w (handler_limit q)
              (wrap64 (wrap64 (handler_page q - 1) * handler_limit q))
              (if query_Get q ''sortBy'' = [] then ''created_at'' else query_Get q ''sortBy'')
              (if query_Get q ''order'' = [] then ''ASC'' else query_Get q ''order''))"
  by (simp add: handler_GetAllAds_def Let_def split: prod.splits sum.splits)

text \<open>
  Claim C9, as the code has it.  The handler does not reject a limit of zero.  The limit
  it uses is 10 when the parameter is absent, 10 when it is not a number, 10 when it is
  zero or negative, and the parsed number when that is positive; so the limit is always
  positive, it is the limit the service is called with, and no list request makes the
  handler panic.  The service itself has no check: its division is by zero exactly
  when it is called with the limit 0 and both repository calls succeed.
\<close>

theorem handler_limit_defaulted_never_zero:
  "0 < handler_limit q
   \<and> (q ''limit'' = None \<longrightarrow> handler_limit q = 10)
   \<and> (\<forall>e. strconv_Atoi (query_Get q ''limit'') = Inl e \<longrightarrow> handler_limit q = 10)
   \<and> (\<forall>n. strconv_Atoi (query_Get q ''limit'') = Inr n \<and> n \<le> 0 \<longrightarrow> handler_limit q = 10)
   \<and> (\<forall>n. strconv_Atoi (query_Get q ''limit'') = Inr n \<and> 0 < n \<longrightarrow> handler_limit q = n)
   \<and> (strconv_Atoi (query_Get q ''limit'') = Inr 0 \<longrightarrow> handler_limit q = 10)
   \<and> snd (handler_GetAllAds E w q)
       = snd (service_GetAllAds E w (handler_limit q)
                (wrap64 (wrap64 (handler_page q - 1) * handler_limit q))
                (if query_Get q ''sortBy'' = [] then ''created_at'' else query_Get q ''sortBy'')
                (if query_Get q ''order'' = [] then ''ASC'' else query_Get q ''order''))
   \<and> fst (handler_GetAllAds E w q) \<noteq> Panics
   \<and> (fst (service_GetAllAds E w limit offset sortBy order) = Inl DivideByZeroPanic)
      = (limit = 0
         \<and> (\<exists>ads. fst (repository_GetAllAds E w limit offset sortBy order) = Inr ads)
         \<and> (\<exists>n. fst (repository_CountAds
                          (snd (repository_GetAllAds E w limit offset sortBy order))) = Inr n))"
proof (intro conjI impI allI)
  show "0 < handler_limit q"
    by (rule handler_limit_pos)
  show "handler_limit q = 10" if "q ''limit'' = None"
    using that by (simp add: handler_limit_def query_Get_def strconv_Atoi_def)
  show "handler_limit q = 10" if "strconv_Atoi (query_Get q ''limit'') = Inl e" for e
    using that by (simp add: handler_limit_def)
  show "handler_limit q = 10" if "strconv_Atoi (query_Get q ''limit'') = Inr n \<and> n \<le> 0" for n
    using that by (simp add: handler_limit_def)
  show "handler_limit q = n" if "strconv_Atoi (query_Get q ''limit'') = Inr n \<and> 0 < n" for n
    using that by (simp add: handler_limit_def)
  show "handler_limit q = 10" if "strconv_Atoi (query_Get q ''limit'') = Inr 0"
    using that by (simp add: handler_limit_def)
  show "snd (handler_GetAllAds E w q)
       = snd (service_GetAllAds E w (handler_limit q)
                (wrap64 (wrap64 (handler_page q - 1) * handler_limit q))
                (if query_Get q ''sortBy'' = [] then ''created_at'' else query_Get q ''sortBy'')
                (if query_Get q ''order'' = [] then ''ASC'' else query_Get q ''order''))"
    by (rule handler_calls_service)
  show "(fst (service_GetAllAds E w limit offset sortBy order) = Inl DivideByZeroPanic)
      = (limit = 0
         \<and> (\<exists>ads. fst (repository_GetAllAds E w limit offset sortBy order) = Inr ads)
         \<and> (\<exists>n. fst (repository_CountAds
                          (snd (repository_GetAllAds E w limit offset sortBy order))) = Inr n))"
    by (rule service_GetAllAds_panic_iff)
  show "fst (handler_GetAllAds E w q) \<noteq> Panics"
  proof
    assume p: "fst (handler_GetAllAds E w q) = Panics"
    let ?offset = "wrap64 (wrap64 (handler_page q - 1) * handler_limit q)"
    let ?sortBy = "if query_Get q ''sortBy'' = [] then ''created_at'' else query_Get q ''sortBy''"
    let ?order = "if query_Get q ''order'' = [] then ''ASC'' else query_Get q ''order''"
    from p have "fst (service_GetAllAds E w (handler_limit q) ?offset ?sortBy ?order)
                  = Inl DivideByZeroPanic"
      by (simp add: handler_GetAllAds_def Let_def split: prod.splits sum.splits if_splits)
    then have "handler_limit q = 0"
      by (rule service_GetAllAds_panic)
    then show False
      using handler_limit_pos [of q] by simp
  qed
qed

text \<open>
  On the example: the requests with no limit, with \<^verbatim>\<open>limit=abc\<close>, \<^verbatim>\<open>limit=-5\<close> and
  \<^verbatim>\<open>limit=0\<close> are served with the limit 10, the request \<^verbatim>\<open>limit=5\<close> with the limit 5;
  the request \<^verbatim>\<open>limit=0\<close> does not panic; the service called with the limit 0 does.
\<close>

theorem handler_limit_defaulted_never_zero_witness:
  "handler_limit Map.empty = 10
   \<and> strconv_Atoi (query_Get [''limit'' \<mapsto> ''abc''] ''limit'') = Inl ErrSyntax
   \<and> handler_limit [''limit'' \<mapsto> ''abc''] = 10
   \<and> strconv_Atoi (query_Get [''limit'' \<mapsto> ''-5''] ''limit'') = Inr (- 5)
   \<and> handler_limit [''limit'' \<mapsto> ''-5''] = 10
   \<and> strconv_Atoi (query_Get [''limit'' \<mapsto> ''0''] ''limit'') = Inr 0
   \<and> handler_limit [''limit'' \<mapsto> ''0''] = 10
   \<and> strconv_Atoi (query_Get [''limit'' \<mapsto> ''5''] ''limit'') = Inr 5
   \<and> handler_limit [''limit'' \<mapsto> ''5''] = 5
   \<and> fst (handler_GetAllAds demo_env demo_world [''limit'' \<mapsto> ''0'']) \<noteq> Panics
   \<and> fst (service_GetAllAds demo_env demo_world 0 0 ''created_at'' ''ASC'')
       = Inl DivideByZeroPanic"
proof -
  have a: "strconv_Atoi (query_Get [''limit'' \<mapsto> ''abc''] ''limit'') = Inl ErrSyntax"
      "strconv_Atoi (query_Get [''limit'' \<mapsto> ''-5''] ''limit'') = Inr (- 5)"
      "strconv_Atoi (query_Get [''limit'' \<mapsto> ''0''] ''limit'') = Inr 0"
      "strconv_Atoi (query_Get [''limit'' \<mapsto> ''5''] ''limit'') = Inr 5"
    by (simp_all add: strconv_Atoi_def digit_value_def query_Get_def)
  have b: "fst (service_GetAllAds demo_env demo_world 0 0 ''created_at'' ''ASC'')
       = Inl DivideByZeroPanic"
    by (simp add: run run_service)
  show ?thesis
    using handler_limit_defaulted_never_zero
            [of Map.empty demo_env demo_world 0 0 "''created_at''" "''ASC''"]
      handler_limit_defaulted_never_zero
            [of "[''limit'' \<mapsto> ''abc'']" demo_env demo_world 0 0 "''created_at''" "''ASC''"]
      handler_limit_defaulted_never_zero
            [of "[''limit'' \<mapsto> ''-5'']" demo_env demo_world 0 0 "''created_at''" "''ASC''"]
      handler_limit_defaulted_never_zero
            [of "[''limit'' \<mapsto> ''0'']" demo_env demo_world 0 0 "''created_at''" "''ASC''"]
      handler_limit_defaulted_never_zero
            [of "[''limit'' \<mapsto> ''5'']" demo_env demo_world 0 0 "''created_at''" "''ASC''"]
      a b
    by simp
qed

text \<open>
  Claim C9 as it was stated fails: the request \<^verbatim>\<open>limit=0\<close> is not rejected as invalid
  input; it is answered with status 200 and the first page of ten.
\<close>

theorem handler_limit_zero_not_rejected:
  "fst (handler_GetAllAds demo_env demo_world [''limit'' \<mapsto> ''0''])
     = RespondWithJSON 200
         \<lparr>Ads = [bike], CurrentPage = 1, NextPage = 0, PrevPage = 0, TotalPages = 1\<rparr>"
  by (simp add: run run_service)

end
